theory Spec2Isabelle
  imports Main
begin

section \<open>Backend output retrieval from stack metadata and stack outputs\<close>

text \<open>
  A shallow embedding of \<^verbatim>\<open>StackMetadataBackendOutputRetrievalStrategy\<close>
  (\<^verbatim>\<open>packages/deployed-backend-client/src/stack_metadata_output_retrieval_strategy.ts\<close>).
  The asynchronous method \<^verbatim>\<open>fetchBackendOutput\<close> makes two sequential calls to the
  CloudFormation client and is otherwise pure; it is modelled as a function from the
  answers of its collaborators to either the thrown value (\<open>Inl\<close>) or the returned
  \<^verbatim>\<open>BackendOutput\<close> (\<open>Inr\<close>).
\<close>

subsection \<open>Strings\<close>

text \<open>
  \<^verbatim>\<open>String.prototype.startsWith\<close> and \<^verbatim>\<open>endsWith\<close>. Strings are only compared for
  equality, for a prefix and for a suffix, so a string is the list of its characters.
\<close>

definition startsWith :: "string \<Rightarrow> string \<Rightarrow> bool" where
  "startsWith s p \<longleftrightarrow> take (length p) s = p"

definition endsWith :: "string \<Rightarrow> string \<Rightarrow> bool" where
  "endsWith s p \<longleftrightarrow> length p \<le> length s \<and> drop (length s - length p) s = p"

text \<open>\<^verbatim>\<open>!!s\<close> for a value of type \<^verbatim>\<open>string | undefined\<close>.\<close>

fun truthy :: "string option \<Rightarrow> bool" where
  "truthy None = False"
| "truthy (Some s) = (s \<noteq> [])"

subsection \<open>Plain JavaScript objects\<close>

text \<open>
  A plain object (\<^verbatim>\<open>Record<string, V>\<close>, created by an object literal, its prototype
  \<^verbatim>\<open>Object.prototype\<close>) is the list of its own enumerable properties in the order in
  which \<^verbatim>\<open>Object.entries\<close>, \<^verbatim>\<open>Object.keys\<close> and the spread syntax report them:
  the keys that are array indices first, in ascending numeric order, then the other keys
  in the order of their creation.
\<close>

type_synonym 'v js_object = "(string \<times> 'v) list"

definition is_digit :: "char \<Rightarrow> bool" where
  "is_digit c \<longleftrightarrow> c \<in> set ''0123456789''"

definition digit_value :: "char \<Rightarrow> nat" where
  "digit_value c = of_char c - 48"

definition index_value :: "string \<Rightarrow> nat" where
  "index_value k = foldl (\<lambda>n c. 10 * n + digit_value c) 0 k"

text \<open>
  An array index is a canonical numeric string (no sign, no leading zero) whose value is
  at most \<open>2\<^sup>3\<^sup>2 - 2\<close>.
\<close>

definition is_array_index :: "string \<Rightarrow> bool" where
  "is_array_index k \<longleftrightarrow>
     k \<noteq> [] \<and> list_all is_digit k \<and> (k = ''0'' \<or> hd k \<noteq> CHR ''0'') \<and>
     index_value k < 2 ^ 32 - 1"

text \<open>A new array-index key takes its place among the array-index keys.\<close>

fun insert_index :: "string \<Rightarrow> 'v \<Rightarrow> 'v js_object \<Rightarrow> 'v js_object" where
  "insert_index k v [] = [(k, v)]"
| "insert_index k v (p # ps) =
     (if is_array_index (fst p) \<and> index_value (fst p) < index_value k
      then p # insert_index k v ps
      else (k, v) # p # ps)"

text \<open>
  \<^verbatim>\<open>CreateDataProperty\<close>, which a computed key \<^verbatim>\<open>[k]: v\<close> in an object literal, the
  spread syntax and \<^verbatim>\<open>Object.fromEntries\<close> perform: an existing own property keeps its
  place and takes the new value, a new one is added.
\<close>

definition define_property :: "'v js_object \<Rightarrow> string \<Rightarrow> 'v \<Rightarrow> 'v js_object" where
  "define_property obj k v =
     (if k \<in> fst ` set obj then map (\<lambda>p. if fst p = k then (k, v) else p) obj
      else if is_array_index k then insert_index k v obj
      else obj @ [(k, v)])"

text \<open>
  \<^verbatim>\<open>Object.fromEntries(entries)\<close>, and \<^verbatim>\<open>{...obj}\<close> applied to the entries of
  \<^verbatim>\<open>obj\<close>: a fresh object that receives the entries one by one.
\<close>

definition from_entries :: "(string \<times> 'v) list \<Rightarrow> 'v js_object" where
  "from_entries es = foldl (\<lambda>obj (k, v). define_property obj k v) [] es"

text \<open>
  The names that every plain object inherits from \<^verbatim>\<open>Object.prototype\<close>. Reading
  \<^verbatim>\<open>obj[k]\<close> for such a name on an object without an own property \<^verbatim>\<open>k\<close> gives the
  inherited member (a function, or the prototype itself for \<^verbatim>\<open>__proto__\<close>), not
  \<^verbatim>\<open>undefined\<close>.
\<close>

definition object_prototype_members :: "string list" where
  "object_prototype_members =
     [''constructor'', ''__defineGetter__'', ''__defineSetter__'', ''hasOwnProperty'',
      ''__lookupGetter__'', ''__lookupSetter__'', ''isPrototypeOf'',
      ''propertyIsEnumerable'', ''toString'', ''valueOf'', ''__proto__'',
      ''toLocaleString'']"

text \<open>
  What a property of the output record or of a payload holds at run time: a string, or a
  member inherited from \<^verbatim>\<open>Object.prototype\<close>, named by its key.
\<close>

datatype js_value = StringValue string | ObjectPrototypeMember string

text \<open>\<^verbatim>\<open>obj[k]\<close> on a \<^verbatim>\<open>Record<string, string>\<close>; \<open>None\<close> is \<^verbatim>\<open>undefined\<close>.\<close>

definition get_property :: "string js_object \<Rightarrow> string \<Rightarrow> js_value option" where
  "get_property obj k =
     (case map_of obj k of
        Some v \<Rightarrow> Some (StringValue v)
      | None \<Rightarrow> if k \<in> set object_prototype_members then Some (ObjectPrototypeMember k)
                else None)"

text \<open>
  The assignment \<^verbatim>\<open>obj[k] = v\<close> on an object that got its own properties by such
  assignments only. For \<^verbatim>\<open>k = "__proto__"\<close> the assignment runs the inherited setter,
  which replaces the prototype of \<^verbatim>\<open>obj\<close> by the object \<^verbatim>\<open>v\<close> and creates no own
  property; every other name is a writable data property or absent on the prototype
  chain, and the assignment creates or updates the own property.
\<close>

definition set_property :: "'v js_object \<Rightarrow> string \<Rightarrow> 'v \<Rightarrow> 'v js_object" where
  "set_property obj k v = (if k = ''__proto__'' then obj else define_property obj k v)"

subsection \<open>Parsed JSON\<close>

text \<open>
  The value \<^verbatim>\<open>JSON.parse\<close> returns. The value of a number is never inspected by this
  code. An object carries its own properties in enumeration order.
\<close>

datatype json =
    JNull
  | JBool bool
  | JNum int
  | JStr string
  | JArr "json list"
  | JObj "(string \<times> json) list"

text \<open>The decimal numeral of an array position, the key under which an array holds it.\<close>

fun string_of_nat :: "nat \<Rightarrow> string" where
  "string_of_nat n =
     (if n < 10 then [char_of (48 + n)]
      else string_of_nat (n div 10) @ [char_of (48 + n mod 10)])"

subsection \<open>Thrown values\<close>

text \<open>
  \<^verbatim>\<open>BackendOutputClientErrorType\<close>, the members this file throws (the enum is declared in
  \<^verbatim>\<open>index.ts\<close> of the package).
\<close>

datatype BackendOutputClientErrorType =
    METADATA_RETRIEVAL_ERROR
  | NO_OUTPUTS_FOUND
  | DEPLOYMENT_IN_PROGRESS
  | NO_STACK_FOUND
  | CREDENTIALS_ERROR
  | ACCESS_DENIED

text \<open>
  An error thrown by \<^verbatim>\<open>cfnClient.send\<close>: whether it is an instance of
  \<^verbatim>\<open>CloudFormationServiceException\<close>, its \<^verbatim>\<open>name\<close> and its \<^verbatim>\<open>message\<close>.
\<close>

record service_error =
  is_CloudFormationServiceException :: bool
  name :: string
  message :: string

text \<open>
  Everything \<^verbatim>\<open>fetchBackendOutput\<close> can reject with: a
  \<^verbatim>\<open>BackendOutputClientError\<close> with its type and message, an error of the client passed
  on as it is, the \<^verbatim>\<open>SyntaxError\<close> of \<^verbatim>\<open>JSON.parse\<close>, a \<^verbatim>\<open>TypeError\<close> of the
  runtime, and the validation error of the metadata schema.
\<close>

datatype thrown =
    BackendOutputClientError BackendOutputClientErrorType string
  | ServiceError service_error
  | SyntaxError
  | TypeError
  | SchemaValidationError

subsection \<open>The CloudFormation client\<close>

record template_summary =
  Metadata :: "string option"

record cfn_output =
  OutputKey :: "string option"
  OutputValue :: "string option"

record cfn_tag =
  Key :: "string option"
  Value :: "string option"

record cfn_stack =
  StackStatus :: "string option"
  Outputs :: "cfn_output list option"
  Tags :: "cfn_tag list option"

record describe_stacks_output =
  Stacks :: "cfn_stack list option"

text \<open>
  \<^verbatim>\<open>cfnClient.send\<close> for the two commands used, by stack name: the command's output,
  or the error thrown.
\<close>

record cfn_client =
  GetTemplateSummaryCommand :: "string \<Rightarrow> service_error + template_summary"
  DescribeStacksCommand :: "string \<Rightarrow> service_error + describe_stacks_output"

subsection \<open>Fetching and parsing the template metadata\<close>

text \<open>
  The body of the \<^verbatim>\<open>try\<close> block. \<^verbatim>\<open>JSON.parse\<close> is a parameter: \<open>None\<close> is
  the \<^verbatim>\<open>SyntaxError\<close> it throws.
\<close>

definition try_block :: "(string \<Rightarrow> json option) \<Rightarrow> cfn_client \<Rightarrow> string \<Rightarrow> thrown + json" where
  "try_block json_parse cfnClient stackName =
     (case GetTemplateSummaryCommand cfnClient stackName of
        Inl error \<Rightarrow> Inl (ServiceError error)
      | Inr templateSummary \<Rightarrow>
          (case Metadata templateSummary of
             None \<Rightarrow>
               Inl (BackendOutputClientError METADATA_RETRIEVAL_ERROR
                      ''Stack template metadata is not a string'')
           | Some text \<Rightarrow>
               (case json_parse text of
                  None \<Rightarrow> Inl SyntaxError
                | Some metadataObject \<Rightarrow> Inr metadataObject)))"

text \<open>
  The \<^verbatim>\<open>catch\<close> block: the value it throws for the value it caught. Only an error of
  the client can be an instance of \<^verbatim>\<open>CloudFormationServiceException\<close>.
\<close>

fun catch_block :: "string \<Rightarrow> thrown \<Rightarrow> thrown" where
  "catch_block stackName (ServiceError error) =
     (if is_CloudFormationServiceException error \<and>
         startsWith (message error) ''Stack with id'' \<and>
         endsWith (message error) ''does not exist''
      then BackendOutputClientError NO_STACK_FOUND
             (''Stack with id '' @ stackName @ '' does not exist'')
      else if is_CloudFormationServiceException error \<and>
         name error \<in> set [''ExpiredToken'', ''InvalidClientTokenId'']
      then BackendOutputClientError CREDENTIALS_ERROR (message error)
      else if is_CloudFormationServiceException error \<and> name error = ''AccessDenied''
      then BackendOutputClientError ACCESS_DENIED (message error)
      else ServiceError error)"
| "catch_block stackName error = error"

definition fetch_metadataObject ::
  "(string \<Rightarrow> json option) \<Rightarrow> cfn_client \<Rightarrow> string \<Rightarrow> thrown + json" where
  "fetch_metadataObject json_parse cfnClient stackName =
     (case try_block json_parse cfnClient stackName of
        Inl error \<Rightarrow> Inl (catch_block stackName error)
      | Inr metadataObject \<Rightarrow> Inr metadataObject)"

subsection \<open>The lenient pre-filter\<close>

text \<open>
  \<^verbatim>\<open>!!obj && typeof obj === 'object' && 'version' in obj && 'stackOutputs' in obj\<close>.
  \<^verbatim>\<open>null\<close> is falsy; a boolean, a number and a string are not of type
  \<^verbatim>\<open>'object'\<close>; an array is, but has no property of either name.
\<close>

fun isBackendOutputEntryStackMetadata :: "json \<Rightarrow> bool" where
  "isBackendOutputEntryStackMetadata (JObj props) =
     (''version'' \<in> fst ` set props \<and> ''stackOutputs'' \<in> fst ` set props)"
| "isBackendOutputEntryStackMetadata (JArr xs) = False"
| "isBackendOutputEntryStackMetadata JNull = False"
| "isBackendOutputEntryStackMetadata (JBool b) = False"
| "isBackendOutputEntryStackMetadata (JNum n) = False"
| "isBackendOutputEntryStackMetadata (JStr s) = False"

text \<open>
  \<^verbatim>\<open>Object.entries\<close> of a parsed value: the properties of an object, the elements of
  an array and the characters of a string under their positions, nothing for a boolean
  or a number, and a \<^verbatim>\<open>TypeError\<close> for \<^verbatim>\<open>null\<close>.
\<close>

fun object_entries :: "json \<Rightarrow> thrown + (string \<times> json) list" where
  "object_entries (JObj props) = Inr props"
| "object_entries (JArr xs) = Inr (zip (map string_of_nat [0..<length xs]) xs)"
| "object_entries (JStr s) =
     Inr (zip (map string_of_nat [0..<length s]) (map (\<lambda>c. JStr [c]) s))"
| "object_entries (JBool b) = Inr []"
| "object_entries (JNum n) = Inr []"
| "object_entries JNull = Inl TypeError"

definition filterBackendOutputEntryStackMetadata :: "json \<Rightarrow> thrown + json js_object" where
  "filterBackendOutputEntryStackMetadata metadata =
     (case object_entries metadata of
        Inl error \<Rightarrow> Inl error
      | Inr entries \<Rightarrow>
          Inr (from_entries (filter (\<lambda>(key, v). isBackendOutputEntryStackMetadata v) entries)))"

subsection \<open>Strict validation\<close>

text \<open>A validated metadata entry, \<^verbatim>\<open>BackendOutputEntryStackMetadata\<close>.\<close>

record BackendOutputEntryStackMetadata =
  version :: string
  stackOutputs :: "string list"

fun strings_of :: "json list \<Rightarrow> string list option" where
  "strings_of [] = Some []"
| "strings_of (JStr s # xs) = map_option ((#) s) (strings_of xs)"
| "strings_of (x # xs) = None"

text \<open>
  Modelled from the spec: \<^verbatim>\<open>backendOutputStackMetadataSchema\<close> is declared in the
  package \<^verbatim>\<open>@aws-amplify/backend-output-schemas\<close>, which is not among the sources at
  hand. An entry is valid when it has a \<^verbatim>\<open>version\<close>, a string, and a list of output
  names that is a non-empty sequence of unique strings; the names are read from the
  property \<^verbatim>\<open>stackOutputs\<close>, the one the code reads.
\<close>

fun parse_entry :: "json \<Rightarrow> BackendOutputEntryStackMetadata option" where
  "parse_entry (JObj props) =
     (case (map_of props ''version'', map_of props ''stackOutputs'') of
        (Some (JStr v), Some (JArr xs)) \<Rightarrow>
          (case strings_of xs of
             Some names \<Rightarrow>
               if names \<noteq> [] \<and> distinct names
               then Some \<lparr>version = v, stackOutputs = names\<rparr>
               else None
           | None \<Rightarrow> None)
      | _ \<Rightarrow> None)"
| "parse_entry other = None"

text \<open>
  Modelled from the spec: \<^verbatim>\<open>backendOutputStackMetadataSchema.parse\<close>. It validates
  every entry of the filtered object, throws the validation error if one is malformed,
  and returns the validated entries under their keys otherwise.
\<close>

fun parse_entries ::
  "json js_object \<Rightarrow> (string \<times> BackendOutputEntryStackMetadata) list option" where
  "parse_entries [] = Some []"
| "parse_entries ((key, v) # rest) =
     (case parse_entry v of
        None \<Rightarrow> None
      | Some entry \<Rightarrow> map_option ((#) (key, entry)) (parse_entries rest))"

definition backendOutputStackMetadataSchema_parse ::
  "json js_object \<Rightarrow> thrown + BackendOutputEntryStackMetadata js_object" where
  "backendOutputStackMetadataSchema_parse filteredMetadataObject =
     (case parse_entries filteredMetadataObject of
        None \<Rightarrow> Inl SchemaValidationError
      | Some entries \<Rightarrow> Inr (from_entries entries))"

subsection \<open>Reading the stack description\<close>

text \<open>\<^verbatim>\<open>stackDescription?.Stacks?.[0]?.Outputs\<close>; \<open>None\<close> is \<^verbatim>\<open>undefined\<close>.\<close>

definition first_stack_outputs :: "describe_stacks_output \<Rightarrow> cfn_output list option" where
  "first_stack_outputs stackDescription =
     (case Stacks stackDescription of
        None \<Rightarrow> None
      | Some [] \<Rightarrow> None
      | Some (first # others) \<Rightarrow> Outputs first)"

text \<open>
  \<^verbatim>\<open>stackDescription.Stacks?.[0].StackStatus?.endsWith('_IN_PROGRESS')\<close> as a condition.
  The chain stops at an undefined \<^verbatim>\<open>Stacks\<close> and at an undefined \<^verbatim>\<open>StackStatus\<close>;
  the element \<^verbatim>\<open>[0]\<close> is read without a guard, so that with an empty list the read of
  \<^verbatim>\<open>StackStatus\<close> throws a \<^verbatim>\<open>TypeError\<close>.
\<close>

definition status_in_progress :: "describe_stacks_output \<Rightarrow> thrown + bool" where
  "status_in_progress stackDescription =
     (case Stacks stackDescription of
        None \<Rightarrow> Inr False
      | Some [] \<Rightarrow> Inl TypeError
      | Some (first # others) \<Rightarrow>
          (case StackStatus first of
             None \<Rightarrow> Inr False
           | Some status \<Rightarrow> Inr (endsWith status ''_IN_PROGRESS'')))"

text \<open>
  \<^verbatim>\<open>Tags?.find((tag) => tag.Key === 'amplify:deployment-type')?.Value ?? 'sandbox'\<close>
  on the first stack.
\<close>

definition deploymentType :: "cfn_stack \<Rightarrow> string" where
  "deploymentType first =
     (case Tags first of
        None \<Rightarrow> ''sandbox''
      | Some tags \<Rightarrow>
          (case find (\<lambda>tag. Key tag = Some ''amplify:deployment-type'') tags of
             None \<Rightarrow> ''sandbox''
           | Some tag \<Rightarrow> (case Value tag of None \<Rightarrow> ''sandbox'' | Some v \<Rightarrow> v)))"

definition in_progress_message :: "string \<Rightarrow> string" where
  "in_progress_message label =
     ''This '' @ label @
     '' deployment is in progress. Re-run this command once the deployment completes.''"

text \<open>
  The two checks on the stack description; the result is the defined \<^verbatim>\<open>outputs\<close>.
  Inside the first branch \<^verbatim>\<open>Stacks\<close> is a non-empty list.
\<close>

definition checked_outputs :: "describe_stacks_output \<Rightarrow> thrown + cfn_output list" where
  "checked_outputs stackDescription =
     (let outputs = first_stack_outputs stackDescription in
      case status_in_progress stackDescription of
        Inl error \<Rightarrow> Inl error
      | Inr True \<Rightarrow>
          (case Stacks stackDescription of
             Some (first # others) \<Rightarrow>
               Inl (BackendOutputClientError DEPLOYMENT_IN_PROGRESS
                      (in_progress_message (deploymentType first)))
           | _ \<Rightarrow> Inl TypeError)
      | Inr False \<Rightarrow>
          (case outputs of
             None \<Rightarrow>
               Inl (BackendOutputClientError NO_OUTPUTS_FOUND ''Stack outputs are undefined'')
           | Some defined_outputs \<Rightarrow> Inr defined_outputs))"

subsection \<open>Joining metadata and outputs\<close>

text \<open>
  The list of outputs as a record from name to value: the entries with a truthy value
  and a truthy key, reduced from the left into a fresh object.
\<close>

definition add_output :: "string js_object \<Rightarrow> cfn_output \<Rightarrow> string js_object" where
  "add_output accumulator outputEntry =
     (case (OutputKey outputEntry, OutputValue outputEntry) of
        (Some k, Some v) \<Rightarrow> define_property (from_entries accumulator) k v
      | _ \<Rightarrow> accumulator)"

definition stackOutputRecord_of :: "cfn_output list \<Rightarrow> string js_object" where
  "stackOutputRecord_of outputs =
     foldl add_output []
       (filter (\<lambda>output. truthy (OutputValue output) \<and> truthy (OutputKey output)) outputs)"

text \<open>
  One step of the reduction over the entry's output names: a name whose read on the
  record is \<^verbatim>\<open>undefined\<close> or the empty string is skipped, every other is added with
  the value read.
\<close>

definition add_name ::
  "string js_object \<Rightarrow> js_value js_object \<Rightarrow> string \<Rightarrow> js_value js_object" where
  "add_name stackOutputRecord accumulator outputName =
     (case get_property stackOutputRecord outputName of
        None \<Rightarrow> accumulator
      | Some v \<Rightarrow>
          if v = StringValue [] then accumulator
          else define_property (from_entries accumulator) outputName v)"

definition outputData :: "string js_object \<Rightarrow> string list \<Rightarrow> js_value js_object" where
  "outputData stackOutputRecord names = foldl (add_name stackOutputRecord) [] names"

text \<open>One group of the result: \<^verbatim>\<open>{ version: entry.version, payload: outputData }\<close>.\<close>

record BackendOutputEntry =
  group_version :: string
  payload :: "js_value js_object"

type_synonym BackendOutput = "BackendOutputEntry js_object"

definition resolve_entry ::
  "string js_object \<Rightarrow> BackendOutputEntryStackMetadata \<Rightarrow> BackendOutputEntry" where
  "resolve_entry stackOutputRecord entry =
     \<lparr>group_version = version entry,
      payload = outputData stackOutputRecord (stackOutputs entry)\<rparr>"

text \<open>The \<^verbatim>\<open>forEach\<close> over \<^verbatim>\<open>Object.entries(backendOutputMetadata)\<close>, from \<^verbatim>\<open>{}\<close>.\<close>

definition build_result ::
  "string js_object \<Rightarrow> BackendOutputEntryStackMetadata js_object \<Rightarrow> BackendOutput" where
  "build_result stackOutputRecord backendOutputMetadata =
     foldl (\<lambda>result (outputKeyName, entry).
              set_property result outputKeyName (resolve_entry stackOutputRecord entry))
       [] backendOutputMetadata"

subsection \<open>The method\<close>

text \<open>The metadata part: fetch, parse, filter, validate.\<close>

definition load_metadata ::
  "(string \<Rightarrow> json option) \<Rightarrow> cfn_client \<Rightarrow> string \<Rightarrow>
     thrown + BackendOutputEntryStackMetadata js_object" where
  "load_metadata json_parse cfnClient stackName =
     (case fetch_metadataObject json_parse cfnClient stackName of
        Inl error \<Rightarrow> Inl error
      | Inr metadataObject \<Rightarrow>
          (case filterBackendOutputEntryStackMetadata metadataObject of
             Inl error \<Rightarrow> Inl error
           | Inr filteredMetadataObject \<Rightarrow>
               backendOutputStackMetadataSchema_parse filteredMetadataObject))"

text \<open>
  \<^verbatim>\<open>fetchBackendOutput\<close>. The stack name resolver has answered or thrown; the call of
  \<^verbatim>\<open>DescribeStacksCommand\<close> stands outside every \<^verbatim>\<open>try\<close>, so what it throws is
  passed on.
\<close>

definition fetchBackendOutput ::
  "(string \<Rightarrow> json option) \<Rightarrow> cfn_client \<Rightarrow> thrown + string \<Rightarrow> thrown + BackendOutput" where
  "fetchBackendOutput json_parse cfnClient resolveMainStackName =
     (case resolveMainStackName of
        Inl error \<Rightarrow> Inl error
      | Inr stackName \<Rightarrow>
          (case load_metadata json_parse cfnClient stackName of
             Inl error \<Rightarrow> Inl error
           | Inr backendOutputMetadata \<Rightarrow>
               (case DescribeStacksCommand cfnClient stackName of
                  Inl error \<Rightarrow> Inl (ServiceError error)
                | Inr stackDescription \<Rightarrow>
                    (case checked_outputs stackDescription of
                       Inl error \<Rightarrow> Inl error
                     | Inr outputs \<Rightarrow>
                         Inr (build_result (stackOutputRecord_of outputs)
                                backendOutputMetadata)))))"

subsection \<open>Well-formed objects\<close>

text \<open>
  The invariant of a property list: no key twice, and the array-index keys first, in
  strictly ascending numeric order. Every object of the runtime satisfies it.
\<close>

fun enumeration_order :: "string list \<Rightarrow> bool" where
  "enumeration_order [] = True"
| "enumeration_order (k # ks) =
     ((\<forall>k' \<in> set ks. is_array_index k' \<longrightarrow> is_array_index k \<and> index_value k < index_value k') \<and>
      enumeration_order ks)"

definition js_object_wf :: "'v js_object \<Rightarrow> bool" where
  "js_object_wf obj \<longleftrightarrow> distinct (map fst obj) \<and> enumeration_order (map fst obj)"

subsection \<open>Notions of the specification\<close>

text \<open>An entry of the metadata carries a field: it is an object with that property.\<close>

fun has_field :: "string \<Rightarrow> json \<Rightarrow> bool" where
  "has_field field (JObj props) = (field \<in> fst ` set props)"
| "has_field field other = False"

text \<open>
  The raw output value of a name: the value of the last output that carries the name,
  not empty, as its key and has a non-empty value; none when no output does.
\<close>

definition raw_output_value :: "cfn_output list \<Rightarrow> string \<Rightarrow> string option" where
  "raw_output_value outputs outputName =
     (let found = filter (\<lambda>output. OutputKey output = Some outputName \<and>
                                     outputName \<noteq> [] \<and> truthy (OutputValue output)) outputs
      in if found = [] then None else OutputValue (last found))"

subsection \<open>Sample collaborators\<close>

text \<open>
  Concrete answers of \<^verbatim>\<open>JSON.parse\<close> and of the CloudFormation client, on which the
  theorems below are instantiated.
\<close>

definition sample_text :: string where
  \<open>sample_text = ''{"api":{"version":"1","stackOutputs":["ApiUrl","ApiId"]},"unrelated":{"note":"x"}}''\<close>

definition sample_metadataObject :: json where
  "sample_metadataObject =
     JObj [(''api'', JObj [(''version'', JStr ''1''),
                           (''stackOutputs'', JArr [JStr ''ApiUrl'', JStr ''ApiId''])]),
           (''unrelated'', JObj [(''note'', JStr ''x'')])]"

definition malformed_text :: string where
  \<open>malformed_text = ''{"api":{"version":"1","stackOutputs":[]}}''\<close>

definition malformed_metadataObject :: json where
  "malformed_metadataObject =
     JObj [(''api'', JObj [(''version'', JStr ''1''), (''stackOutputs'', JArr [])])]"

definition duplicate_text :: string where
  \<open>duplicate_text = ''{"api":{"version":"1","stackOutputs":["ApiUrl","ApiUrl"]}}''\<close>

definition duplicate_metadataObject :: json where
  "duplicate_metadataObject =
     JObj [(''api'', JObj [(''version'', JStr ''1''),
                           (''stackOutputs'', JArr [JStr ''ApiUrl'', JStr ''ApiUrl''])])]"

definition constructor_text :: string where
  \<open>constructor_text = ''{"api":{"version":"1","stackOutputs":["constructor"]}}''\<close>

definition constructor_metadataObject :: json where
  "constructor_metadataObject =
     JObj [(''api'', JObj [(''version'', JStr ''1''),
                           (''stackOutputs'', JArr [JStr ''constructor''])])]"

definition sample_json_parse :: "string \<Rightarrow> json option" where
  "sample_json_parse text =
     map_of [(sample_text, sample_metadataObject),
             (malformed_text, malformed_metadataObject),
             (duplicate_text, duplicate_metadataObject),
             (constructor_text, constructor_metadataObject)] text"

definition sample_client ::
  "service_error + template_summary \<Rightarrow> service_error + describe_stacks_output \<Rightarrow> cfn_client" where
  "sample_client summary description =
     \<lparr>GetTemplateSummaryCommand = (\<lambda>stackName. summary),
      DescribeStacksCommand = (\<lambda>stackName. description)\<rparr>"

definition sample_stackName :: string where
  "sample_stackName = ''amplify-app-main-branch''"

definition sample_outputs :: "cfn_output list" where
  "sample_outputs =
     [\<lparr>OutputKey = Some ''ApiUrl'', OutputValue = Some ''https://x''\<rparr>,
      \<lparr>OutputKey = Some ''ApiId'', OutputValue = Some ''''\<rparr>]"

definition in_progress_stack :: cfn_stack where
  "in_progress_stack =
     \<lparr>StackStatus = Some ''UPDATE_IN_PROGRESS'', Outputs = Some sample_outputs,
      Tags = Some [\<lparr>Key = Some ''created-by'', Value = Some ''amplify''\<rparr>,
                   \<lparr>Key = Some ''amplify:deployment-type'', Value = Some ''branch''\<rparr>]\<rparr>"

definition no_outputs_stack :: cfn_stack where
  "no_outputs_stack = \<lparr>StackStatus = Some ''CREATE_COMPLETE'', Outputs = None, Tags = None\<rparr>"

definition access_denied_error :: service_error where
  "access_denied_error =
     \<lparr>is_CloudFormationServiceException = True, name = ''AccessDenied'',
      message = ''User is not authorized to perform: cloudformation:DescribeStacks''\<rparr>"

definition expired_token_error :: service_error where
  "expired_token_error =
     \<lparr>is_CloudFormationServiceException = True, name = ''ExpiredToken'',
      message = ''The security token included in the request is expired''\<rparr>"

definition no_stack_error :: service_error where
  "no_stack_error =
     \<lparr>is_CloudFormationServiceException = True, name = ''ValidationError'',
      message = ''Stack with id amplify-app-main-branch does not exist''\<rparr>"

definition network_error :: service_error where
  "network_error =
     \<lparr>is_CloudFormationServiceException = False, name = ''TimeoutError'',
      message = ''socket hang up''\<rparr>"

definition version_only_metadataObject :: json where
  "version_only_metadataObject =
     JObj [(''auth'', JObj [(''version'', JStr ''1'')]),
           (''api'', JObj [(''version'', JStr ''1''),
                           (''stackOutputs'', JArr [JStr ''ApiUrl''])]),
           (''unrelated'', JObj [(''note'', JStr ''x'')])]"

definition complete_stack :: "cfn_output list \<Rightarrow> cfn_stack" where
  "complete_stack outputs =
     \<lparr>StackStatus = Some ''CREATE_COMPLETE'', Outputs = Some outputs, Tags = None\<rparr>"


section \<open>Properties\<close>

subsection \<open>Objects\<close>

lemma keys_insert_index: "fst ` set (insert_index k v obj) = insert k (fst ` set obj)"
  by (induction obj) auto

lemma map_fst_replace: "map fst (map (\<lambda>p. if fst p = k then (k, v) else p) obj) = map fst obj"
  by (induction obj) auto



lemma distinct_insert_index:
  "distinct (map fst obj) \<Longrightarrow> k \<notin> fst ` set obj \<Longrightarrow> distinct (map fst (insert_index k v obj))"
proof (induction obj)
  case Nil
  then show ?case by simp
next
  case (Cons p ps)
  then have "distinct (map fst (insert_index k v ps))" by simp
  moreover have "fst p \<notin> fst ` set (insert_index k v ps)"
    using Cons.prems by (auto simp: keys_insert_index)
  ultimately show ?case using Cons.prems by auto
qed

lemma distinct_define_property:
  assumes "distinct (map fst obj)"
  shows "distinct (map fst (define_property obj k v))"
proof (cases "k \<in> fst ` set obj")
  case True
  then have "map fst (define_property obj k v) = map fst obj"
    by (simp only: define_property_def if_True map_fst_replace)
  then show ?thesis using assms by simp
next
  case False
  then show ?thesis using assms by (simp add: define_property_def distinct_insert_index)
qed

lemma map_of_insert_index:
  "k \<notin> fst ` set obj \<Longrightarrow> map_of (insert_index k v obj) x = ((map_of obj)(k \<mapsto> v)) x"
  by (induction obj) auto

lemma map_of_replace:
  "map_of (map (\<lambda>p. if fst p = k then (k, v) else p) obj) x =
     (if x = k then map_option (\<lambda>old. v) (map_of obj k) else map_of obj x)"
  by (induction obj) auto

lemma map_of_append_new:
  "k \<notin> fst ` set obj \<Longrightarrow> map_of (obj @ [(k, v)]) x = ((map_of obj)(k \<mapsto> v)) x"
proof -
  assume "k \<notin> fst ` set obj"
  then have "map_of obj k = None" by (simp add: map_of_eq_None_iff)
  then show ?thesis by (simp add: map_add_def split: option.splits)
qed

lemma map_of_define_property: "map_of (define_property obj k v) x = ((map_of obj)(k \<mapsto> v)) x"
proof (cases "k \<in> fst ` set obj")
  case True
  then obtain old where "map_of obj k = Some old"
    by (metis map_of_eq_None_iff not_Some_eq)
  then show ?thesis using True by (simp add: define_property_def map_of_replace)
next
  case new: False
  show ?thesis
  proof (cases "is_array_index k")
    case True
    with new have "define_property obj k v = insert_index k v obj"
      by (simp add: define_property_def)
    then show ?thesis using map_of_insert_index [OF new] by (simp only:)
  next
    case False
    with new have "define_property obj k v = obj @ [(k, v)]"
      by (simp add: define_property_def)
    then show ?thesis using map_of_append_new [OF new] by (simp only:)
  qed
qed

lemma insert_index_at_end:
  "\<forall>p \<in> set obj. is_array_index (fst p) \<and> index_value (fst p) < index_value k \<Longrightarrow>
   insert_index k v obj = obj @ [(k, v)]"
  by (induction obj) auto

lemma enumeration_order_prefix: "enumeration_order (xs @ ys) \<Longrightarrow> enumeration_order xs"
  by (induction xs) auto

lemma enumeration_order_before:
  "enumeration_order (ks @ [k]) \<Longrightarrow> is_array_index k \<Longrightarrow>
   \<forall>k' \<in> set ks. is_array_index k' \<and> index_value k' < index_value k"
  by (induction ks) auto

lemma define_property_next:
  assumes "js_object_wf (acc @ [(k, v)])"
  shows "define_property acc k v = acc @ [(k, v)]"
proof -
  have new: "k \<notin> fst ` set acc" using assms by (auto simp: js_object_wf_def)
  show ?thesis
  proof (cases "is_array_index k")
    case True
    have "enumeration_order (map fst acc @ [k])" using assms by (simp add: js_object_wf_def)
    from enumeration_order_before [OF this True]
    have "\<forall>p \<in> set acc. is_array_index (fst p) \<and> index_value (fst p) < index_value k" by simp
    then show ?thesis using new True by (simp add: define_property_def insert_index_at_end)
  next
    case False
    then show ?thesis using new by (simp add: define_property_def)
  qed
qed

lemma js_object_wf_prefix: "js_object_wf (xs @ ys) \<Longrightarrow> js_object_wf xs"
  using enumeration_order_prefix [of "map fst xs" "map fst ys"] by (simp add: js_object_wf_def)

lemma foldl_define_property_wf:
  "js_object_wf (acc @ es) \<Longrightarrow>
   foldl (\<lambda>obj (k, v). define_property obj k v) acc es = acc @ es"
proof (induction es arbitrary: acc)
  case Nil
  then show ?case by simp
next
  case (Cons e es)
  obtain k v where e: "e = (k, v)" by (cases e)
  have wf: "js_object_wf ((acc @ [(k, v)]) @ es)" using Cons.prems e by simp
  then have "js_object_wf (acc @ [(k, v)])" by (rule js_object_wf_prefix)
  then have "define_property acc k v = acc @ [(k, v)]" by (rule define_property_next)
  then show ?case using Cons.IH [OF wf] e by simp
qed

lemma from_entries_wf: "js_object_wf es \<Longrightarrow> from_entries es = es"
  using foldl_define_property_wf [of "[]" es] by (simp add: from_entries_def)

lemma enumeration_order_filter: "enumeration_order ks \<Longrightarrow> enumeration_order (filter P ks)"
  by (induction ks) auto

lemma js_object_wf_filter: "js_object_wf obj \<Longrightarrow> js_object_wf (filter P obj)"
proof -
  assume wf: "js_object_wf obj"
  have "map fst (filter P obj) = map fst (filter P obj)" ..
  have d: "distinct (map fst (filter P obj))" using wf by (simp add: js_object_wf_def distinct_map_filter)
  have "enumeration_order (map fst obj) \<Longrightarrow> enumeration_order (map fst (filter P obj))"
    by (induction obj) auto
  then show ?thesis using wf d by (simp add: js_object_wf_def)
qed


subsection \<open>The sample collaborators\<close>

lemma parse_sample: "sample_json_parse sample_text = Some sample_metadataObject"
  by (simp add: sample_json_parse_def)

lemma parse_malformed: "sample_json_parse malformed_text = Some malformed_metadataObject"
  by (simp add: sample_json_parse_def sample_text_def malformed_text_def)

lemma parse_duplicate: "sample_json_parse duplicate_text = Some duplicate_metadataObject"
  by (simp add: sample_json_parse_def sample_text_def malformed_text_def duplicate_text_def)

lemma parse_constructor: "sample_json_parse constructor_text = Some constructor_metadataObject"
  by (simp add: sample_json_parse_def sample_text_def malformed_text_def duplicate_text_def
      constructor_text_def)

lemma parse_broken: "sample_json_parse ''{'' = None"
  by (simp add: sample_json_parse_def sample_text_def malformed_text_def duplicate_text_def
      constructor_text_def)

lemma not_index_api: "\<not> is_array_index ''api''"
  by (simp add: is_array_index_def is_digit_def)

lemma filter_sample:
  "filterBackendOutputEntryStackMetadata sample_metadataObject =
     Inr [(''api'', JObj [(''version'', JStr ''1''),
                          (''stackOutputs'', JArr [JStr ''ApiUrl'', JStr ''ApiId''])])]"
  by (simp add: filterBackendOutputEntryStackMetadata_def sample_metadataObject_def
      from_entries_def define_property_def not_index_api)

lemma load_sample:
  "load_metadata sample_json_parse (sample_client (Inr \<lparr>Metadata = Some sample_text\<rparr>) d) n =
     Inr [(''api'', \<lparr>version = ''1'', stackOutputs = [''ApiUrl'', ''ApiId'']\<rparr>)]"
  by (simp add: load_metadata_def fetch_metadataObject_def try_block_def sample_client_def
      parse_sample filter_sample backendOutputStackMetadataSchema_parse_def
      from_entries_def define_property_def not_index_api)


subsection \<open>The checks on the stack description\<close>

lemma fetch_after_metadata:
  assumes "load_metadata json_parse cfnClient stackName = Inr backendOutputMetadata"
    and "DescribeStacksCommand cfnClient stackName = Inr stackDescription"
  shows "fetchBackendOutput json_parse cfnClient (Inr stackName) =
           (case checked_outputs stackDescription of
              Inl error \<Rightarrow> Inl error
            | Inr outputs \<Rightarrow>
                Inr (build_result (stackOutputRecord_of outputs) backendOutputMetadata))"
  using assms by (simp add: fetchBackendOutput_def)

lemma find_first_match:
  "\<forall>x \<in> set before. \<not> P x \<Longrightarrow> P y \<Longrightarrow> find P (before @ y # after) = Some y"
  by (induction before) auto

lemma find_no_match: "\<forall>x \<in> set xs. \<not> P x \<Longrightarrow> find P xs = None"
  by (induction xs) auto

text \<open>
  C2. When the status of the first stack ends with \<^verbatim>\<open>_IN_PROGRESS\<close>, the method
  rejects with \<^verbatim>\<open>DEPLOYMENT_IN_PROGRESS\<close>, whatever \<^verbatim>\<open>Outputs\<close> hold (no
  premise mentions them: the status is checked before the outputs). The message carries
  the value of the first tag with the key \<^verbatim>\<open>amplify:deployment-type\<close>, and
  \<^verbatim>\<open>sandbox\<close> when there are no tags or no tag has that key.
\<close>

theorem deployment_in_progress_first:
  assumes "load_metadata json_parse cfnClient stackName = Inr backendOutputMetadata"
    and "DescribeStacksCommand cfnClient stackName = Inr stackDescription"
    and "Stacks stackDescription = Some (first # others)"
    and "StackStatus first = Some status"
    and "endsWith status ''_IN_PROGRESS''"
  shows "fetchBackendOutput json_parse cfnClient (Inr stackName) =
           Inl (BackendOutputClientError DEPLOYMENT_IN_PROGRESS
                  (''This '' @ deploymentType first @
                   '' deployment is in progress. Re-run this command once the deployment completes.''))
         \<and> (Tags first = None \<longrightarrow> deploymentType first = ''sandbox'')
         \<and> (\<forall>tags. Tags first = Some tags \<and>
                (\<forall>tag \<in> set tags. Key tag \<noteq> Some ''amplify:deployment-type'') \<longrightarrow>
                deploymentType first = ''sandbox'')
         \<and> (\<forall>before tag after label.
                Tags first = Some (before @ tag # after) \<and>
                (\<forall>earlier \<in> set before. Key earlier \<noteq> Some ''amplify:deployment-type'') \<and>
                Key tag = Some ''amplify:deployment-type'' \<and> Value tag = Some label \<longrightarrow>
                deploymentType first = label)"
proof -
  have "checked_outputs stackDescription =
          Inl (BackendOutputClientError DEPLOYMENT_IN_PROGRESS
                 (in_progress_message (deploymentType first)))"
    using assms(3-5) by (simp add: checked_outputs_def status_in_progress_def)
  then have thrown: "fetchBackendOutput json_parse cfnClient (Inr stackName) =
          Inl (BackendOutputClientError DEPLOYMENT_IN_PROGRESS
                 (in_progress_message (deploymentType first)))"
    using fetch_after_metadata [OF assms(1,2)] by simp
  have absent: "deploymentType first = ''sandbox''"
    if "Tags first = Some tags"
      and "\<forall>tag \<in> set tags. Key tag \<noteq> Some ''amplify:deployment-type''" for tags
    using that find_no_match [of tags "\<lambda>tag. Key tag = Some ''amplify:deployment-type''"]
    by (simp add: deploymentType_def)
  have present: "deploymentType first = label"
    if "Tags first = Some (before @ tag # after)"
      and "\<forall>earlier \<in> set before. Key earlier \<noteq> Some ''amplify:deployment-type''"
      and "Key tag = Some ''amplify:deployment-type''" and "Value tag = Some label"
    for before tag after label
    using that
      find_first_match [of before "\<lambda>tag. Key tag = Some ''amplify:deployment-type''" tag after]
    by (simp add: deploymentType_def)
  have none: "Tags first = None \<longrightarrow> deploymentType first = ''sandbox''"
    by (simp add: deploymentType_def)
  show ?thesis using thrown absent present none
    by (simp only: in_progress_message_def) blast
qed

lemma sample_describe:
  "DescribeStacksCommand (sample_client s d) n = d"
  "GetTemplateSummaryCommand (sample_client s d) n = s"
  by (simp_all add: sample_client_def)

lemma in_progress_status: "endsWith ''UPDATE_IN_PROGRESS'' ''_IN_PROGRESS''"
  by (simp add: endsWith_def)

theorem deployment_in_progress_first_witness:
  "fetchBackendOutput sample_json_parse
     (sample_client (Inr \<lparr>Metadata = Some sample_text\<rparr>)
        (Inr \<lparr>Stacks = Some [in_progress_stack]\<rparr>))
     (Inr sample_stackName) =
   Inl (BackendOutputClientError DEPLOYMENT_IN_PROGRESS
          ''This branch deployment is in progress. Re-run this command once the deployment completes.'')
   \<and> Outputs in_progress_stack = Some sample_outputs"
proof -
  have tags: "Tags in_progress_stack =
      Some ([\<lparr>Key = Some ''created-by'', Value = Some ''amplify''\<rparr>] @
            \<lparr>Key = Some ''amplify:deployment-type'', Value = Some ''branch''\<rparr> # [])"
    by (simp add: in_progress_stack_def)
  have status: "StackStatus in_progress_stack = Some ''UPDATE_IN_PROGRESS''"
    by (simp add: in_progress_stack_def)
  have stacks: "Stacks \<lparr>Stacks = Some [in_progress_stack]\<rparr> = Some (in_progress_stack # [])"
    by simp
  note inst = deployment_in_progress_first [where stackName = sample_stackName,
      OF load_sample sample_describe(1) stacks status in_progress_status]
  note labelled = inst [THEN conjunct2, THEN conjunct2, THEN conjunct2, rule_format,
      of "[\<lparr>Key = Some ''created-by'', Value = Some ''amplify''\<rparr>]"
         "\<lparr>Key = Some ''amplify:deployment-type'', Value = Some ''branch''\<rparr>" "[]" "''branch''"]
  have label: "deploymentType in_progress_stack = ''branch''"
    using labelled tags by simp
  have thrown: "fetchBackendOutput sample_json_parse
     (sample_client (Inr \<lparr>Metadata = Some sample_text\<rparr>)
        (Inr \<lparr>Stacks = Some [in_progress_stack]\<rparr>))
     (Inr sample_stackName) =
   Inl (BackendOutputClientError DEPLOYMENT_IN_PROGRESS
          ''This branch deployment is in progress. Re-run this command once the deployment completes.'')"
    using inst [THEN conjunct1] by (simp add: label)
  have present: "Outputs in_progress_stack = Some sample_outputs"
    by (simp add: in_progress_stack_def)
  show ?thesis by (rule conjI [OF thrown present])
qed


text \<open>
  Where the description has no \<^verbatim>\<open>Stacks\<close>, or a first stack without
  \<^verbatim>\<open>Outputs\<close> whose status does not end with \<^verbatim>\<open>_IN_PROGRESS\<close>, the method
  rejects with \<^verbatim>\<open>NO_OUTPUTS_FOUND\<close>.
\<close>

lemma no_outputs_found:
  assumes "load_metadata json_parse cfnClient stackName = Inr backendOutputMetadata"
    and "DescribeStacksCommand cfnClient stackName = Inr stackDescription"
    and "Stacks stackDescription = None \<or>
         (\<exists>first others. Stacks stackDescription = Some (first # others) \<and>
            Outputs first = None \<and>
            (\<forall>status. StackStatus first = Some status \<longrightarrow>
               \<not> endsWith status ''_IN_PROGRESS''))"
  shows "fetchBackendOutput json_parse cfnClient (Inr stackName) =
           Inl (BackendOutputClientError NO_OUTPUTS_FOUND ''Stack outputs are undefined'')"
proof -
  have "checked_outputs stackDescription =
          Inl (BackendOutputClientError NO_OUTPUTS_FOUND ''Stack outputs are undefined'')"
    using assms(3)
    by (auto simp: checked_outputs_def status_in_progress_def first_stack_outputs_def
        split: option.splits)
  then show ?thesis using fetch_after_metadata [OF assms(1,2)] by simp
qed

lemma complete_status: "\<not> endsWith ''CREATE_COMPLETE'' ''_IN_PROGRESS''"
  by (simp add: endsWith_def)

lemma no_outputs_found_sample:
  "Outputs no_outputs_stack = None \<and>
   StackStatus no_outputs_stack = Some ''CREATE_COMPLETE'' \<and>
   \<not> endsWith ''CREATE_COMPLETE'' ''_IN_PROGRESS'' \<and>
   fetchBackendOutput sample_json_parse
     (sample_client (Inr \<lparr>Metadata = Some sample_text\<rparr>)
        (Inr \<lparr>Stacks = Some [no_outputs_stack]\<rparr>))
     (Inr sample_stackName) =
   Inl (BackendOutputClientError NO_OUTPUTS_FOUND ''Stack outputs are undefined'')"
proof -
  have shape: "Stacks \<lparr>Stacks = Some [no_outputs_stack]\<rparr> = None \<or>
      (\<exists>first others. Stacks \<lparr>Stacks = Some [no_outputs_stack]\<rparr> = Some (first # others) \<and>
         Outputs first = None \<and>
         (\<forall>status. StackStatus first = Some status \<longrightarrow>
            \<not> endsWith status ''_IN_PROGRESS''))"
    by (simp add: no_outputs_stack_def complete_status)
  show ?thesis
    using no_outputs_found [where stackName = sample_stackName,
        OF load_sample sample_describe(1) shape]
    by (simp add: no_outputs_stack_def complete_status)
qed

text \<open>
  C7. The code departs from the claim where \<^verbatim>\<open>Stacks\<close> is a defined, empty
  list: \<^verbatim>\<open>outputs\<close>, read through the guarded chain \<^verbatim>\<open>Stacks?.[0]?.Outputs\<close>, is
  undefined and no status is in progress, but the status check reads
  \<^verbatim>\<open>Stacks?.[0].StackStatus\<close> without the guard after \<^verbatim>\<open>[0]\<close> and throws a
  \<^verbatim>\<open>TypeError\<close> before \<^verbatim>\<open>NO_OUTPUTS_FOUND\<close> can be thrown.
\<close>

theorem empty_stacks_not_no_outputs_found:
  "first_stack_outputs \<lparr>Stacks = Some []\<rparr> = None \<and>
   fetchBackendOutput sample_json_parse
     (sample_client (Inr \<lparr>Metadata = Some sample_text\<rparr>) (Inr \<lparr>Stacks = Some []\<rparr>))
     (Inr sample_stackName) = Inl TypeError"
  by (simp add: first_stack_outputs_def fetchBackendOutput_def load_sample sample_describe
      checked_outputs_def status_in_progress_def)

text \<open>
  C10. When \<^verbatim>\<open>Stacks\<close> is a defined but empty list, the unguarded read of
  \<^verbatim>\<open>StackStatus\<close> on the missing first element throws: the method rejects with a
  \<^verbatim>\<open>TypeError\<close>, which is neither a \<^verbatim>\<open>BackendOutput\<close> nor a
  \<^verbatim>\<open>BackendOutputClientError\<close>.
\<close>

theorem empty_stacks_type_error:
  assumes "load_metadata json_parse cfnClient stackName = Inr backendOutputMetadata"
    and "DescribeStacksCommand cfnClient stackName = Inr stackDescription"
    and "Stacks stackDescription = Some []"
  shows "fetchBackendOutput json_parse cfnClient (Inr stackName) = Inl TypeError"
proof -
  have "checked_outputs stackDescription = Inl TypeError"
    using assms(3) by (simp add: checked_outputs_def status_in_progress_def)
  then show ?thesis using fetch_after_metadata [OF assms(1,2)] by simp
qed

theorem empty_stacks_type_error_witness:
  "fetchBackendOutput sample_json_parse
     (sample_client (Inr \<lparr>Metadata = Some sample_text\<rparr>) (Inr \<lparr>Stacks = Some []\<rparr>))
     (Inr sample_stackName) = Inl TypeError"
proof -
  have empty: "Stacks \<lparr>Stacks = Some []\<rparr> = Some []" by simp
  show ?thesis
    by (rule empty_stacks_type_error [where stackName = sample_stackName,
          OF load_sample sample_describe(1) empty])
qed

subsection \<open>The metadata fetch\<close>

text \<open>
  C5 as stated fails: a metadata string that \<^verbatim>\<open>JSON.parse\<close> rejects makes the method
  reject with the \<^verbatim>\<open>SyntaxError\<close> of the parser, which the \<^verbatim>\<open>catch\<close> block
  throws again as it is, not with \<^verbatim>\<open>METADATA_RETRIEVAL_ERROR\<close>.
\<close>

theorem unparseable_metadata_counterexample:
  "sample_json_parse ''{'' = None \<and>
   fetchBackendOutput sample_json_parse
     (sample_client (Inr \<lparr>Metadata = Some ''{''\<rparr>) (Inr \<lparr>Stacks = Some [no_outputs_stack]\<rparr>))
     (Inr sample_stackName) = Inl SyntaxError"
  by (simp add: parse_broken fetchBackendOutput_def load_metadata_def fetch_metadataObject_def
      try_block_def sample_describe)

text \<open>
  C5, amended. When the template summary holds no metadata string, the method rejects
  with \<^verbatim>\<open>METADATA_RETRIEVAL_ERROR\<close>; when it holds a string that cannot be parsed,
  the method rejects with the parser's \<^verbatim>\<open>SyntaxError\<close>.
\<close>

theorem metadata_not_a_string:
  assumes "GetTemplateSummaryCommand cfnClient stackName = Inr templateSummary"
  shows "(Metadata templateSummary = None \<longrightarrow>
            fetchBackendOutput json_parse cfnClient (Inr stackName) =
              Inl (BackendOutputClientError METADATA_RETRIEVAL_ERROR
                     ''Stack template metadata is not a string''))
       \<and> (\<forall>text. Metadata templateSummary = Some text \<and> json_parse text = None \<longrightarrow>
            fetchBackendOutput json_parse cfnClient (Inr stackName) = Inl SyntaxError)"
  using assms
  by (simp add: fetchBackendOutput_def load_metadata_def fetch_metadataObject_def try_block_def)

theorem metadata_not_a_string_witness:
  "fetchBackendOutput sample_json_parse
     (sample_client (Inr \<lparr>Metadata = None\<rparr>) (Inr \<lparr>Stacks = Some [no_outputs_stack]\<rparr>))
     (Inr sample_stackName) =
   Inl (BackendOutputClientError METADATA_RETRIEVAL_ERROR
          ''Stack template metadata is not a string'')
   \<and> fetchBackendOutput sample_json_parse
     (sample_client (Inr \<lparr>Metadata = Some ''{''\<rparr>) (Inr \<lparr>Stacks = Some [no_outputs_stack]\<rparr>))
     (Inr sample_stackName) = Inl SyntaxError"
  using metadata_not_a_string [where json_parse = sample_json_parse
        and stackName = sample_stackName and templateSummary = "\<lparr>Metadata = None\<rparr>",
        OF sample_describe(2)]
    metadata_not_a_string [where json_parse = sample_json_parse
        and stackName = sample_stackName and templateSummary = "\<lparr>Metadata = Some ''{''\<rparr>",
        OF sample_describe(2)]
  by (simp add: parse_broken)

subsection \<open>Error classification\<close>

text \<open>
  C4 as stated fails: an error thrown by the second call of the client is outside the
  \<^verbatim>\<open>try\<close> block and leaves the method as it is, although its name is
  \<^verbatim>\<open>AccessDenied\<close>.
\<close>

theorem describe_stacks_error_counterexample:
  "is_CloudFormationServiceException access_denied_error \<and>
   name access_denied_error = ''AccessDenied'' \<and>
   fetchBackendOutput sample_json_parse
     (sample_client (Inr \<lparr>Metadata = Some sample_text\<rparr>) (Inl access_denied_error))
     (Inr sample_stackName) = Inl (ServiceError access_denied_error)"
  by (simp add: fetchBackendOutput_def load_sample sample_describe access_denied_error_def)

text \<open>
  C4, amended. An error thrown by the fetch of the template summary is classified, the
  first rule that applies deciding: an instance of \<^verbatim>\<open>CloudFormationServiceException\<close>
  whose message starts with \<^verbatim>\<open>Stack with id\<close> and ends with \<^verbatim>\<open>does not exist\<close>
  becomes \<^verbatim>\<open>NO_STACK_FOUND\<close>, one named \<^verbatim>\<open>ExpiredToken\<close> or
  \<^verbatim>\<open>InvalidClientTokenId\<close> becomes \<^verbatim>\<open>CREDENTIALS_ERROR\<close>, one named
  \<^verbatim>\<open>AccessDenied\<close> becomes \<^verbatim>\<open>ACCESS_DENIED\<close>, and every other error is thrown
  again unchanged. An error thrown by the fetch of the stack description is thrown
  unchanged, whatever its name and message.
\<close>

theorem error_classification:
  "(\<forall>error. GetTemplateSummaryCommand cfnClient stackName = Inl error \<longrightarrow>
      fetchBackendOutput json_parse cfnClient (Inr stackName) =
        Inl (if is_CloudFormationServiceException error \<and>
                startsWith (message error) ''Stack with id'' \<and>
                endsWith (message error) ''does not exist''
             then BackendOutputClientError NO_STACK_FOUND
                    (''Stack with id '' @ stackName @ '' does not exist'')
             else if is_CloudFormationServiceException error \<and>
                (name error = ''ExpiredToken'' \<or> name error = ''InvalidClientTokenId'')
             then BackendOutputClientError CREDENTIALS_ERROR (message error)
             else if is_CloudFormationServiceException error \<and> name error = ''AccessDenied''
             then BackendOutputClientError ACCESS_DENIED (message error)
             else ServiceError error))
   \<and> (\<forall>backendOutputMetadata error.
         load_metadata json_parse cfnClient stackName = Inr backendOutputMetadata \<and>
         DescribeStacksCommand cfnClient stackName = Inl error \<longrightarrow>
         fetchBackendOutput json_parse cfnClient (Inr stackName) = Inl (ServiceError error))"
proof (intro conjI allI impI)
  fix error
  assume "GetTemplateSummaryCommand cfnClient stackName = Inl error"
  then have "fetchBackendOutput json_parse cfnClient (Inr stackName) =
               Inl (catch_block stackName (ServiceError error))"
    by (simp add: fetchBackendOutput_def load_metadata_def fetch_metadataObject_def
        try_block_def)
  then show "fetchBackendOutput json_parse cfnClient (Inr stackName) =
        Inl (if is_CloudFormationServiceException error \<and>
                startsWith (message error) ''Stack with id'' \<and>
                endsWith (message error) ''does not exist''
             then BackendOutputClientError NO_STACK_FOUND
                    (''Stack with id '' @ stackName @ '' does not exist'')
             else if is_CloudFormationServiceException error \<and>
                (name error = ''ExpiredToken'' \<or> name error = ''InvalidClientTokenId'')
             then BackendOutputClientError CREDENTIALS_ERROR (message error)
             else if is_CloudFormationServiceException error \<and> name error = ''AccessDenied''
             then BackendOutputClientError ACCESS_DENIED (message error)
             else ServiceError error)"
    by auto
next
  fix backendOutputMetadata error
  assume "load_metadata json_parse cfnClient stackName = Inr backendOutputMetadata \<and>
         DescribeStacksCommand cfnClient stackName = Inl error"
  then show "fetchBackendOutput json_parse cfnClient (Inr stackName) = Inl (ServiceError error)"
    by (simp add: fetchBackendOutput_def)
qed

lemma no_stack_message:
  "startsWith (message no_stack_error) ''Stack with id'' \<and>
   endsWith (message no_stack_error) ''does not exist''"
  by (simp add: no_stack_error_def startsWith_def endsWith_def)

lemma other_messages:
  "\<not> startsWith (message expired_token_error) ''Stack with id''"
  "\<not> startsWith (message access_denied_error) ''Stack with id''"
  by (simp_all add: expired_token_error_def access_denied_error_def startsWith_def)

theorem error_classification_witness:
  "fetchBackendOutput sample_json_parse
     (sample_client (Inl no_stack_error) (Inr \<lparr>Stacks = None\<rparr>)) (Inr sample_stackName) =
     Inl (BackendOutputClientError NO_STACK_FOUND
            ''Stack with id amplify-app-main-branch does not exist'')
   \<and> fetchBackendOutput sample_json_parse
     (sample_client (Inl expired_token_error) (Inr \<lparr>Stacks = None\<rparr>)) (Inr sample_stackName) =
     Inl (BackendOutputClientError CREDENTIALS_ERROR
            ''The security token included in the request is expired'')
   \<and> fetchBackendOutput sample_json_parse
     (sample_client (Inl access_denied_error) (Inr \<lparr>Stacks = None\<rparr>)) (Inr sample_stackName) =
     Inl (BackendOutputClientError ACCESS_DENIED
            ''User is not authorized to perform: cloudformation:DescribeStacks'')
   \<and> fetchBackendOutput sample_json_parse
     (sample_client (Inl network_error) (Inr \<lparr>Stacks = None\<rparr>)) (Inr sample_stackName) =
     Inl (ServiceError network_error)
   \<and> fetchBackendOutput sample_json_parse
     (sample_client (Inr \<lparr>Metadata = Some sample_text\<rparr>) (Inl expired_token_error))
     (Inr sample_stackName) = Inl (ServiceError expired_token_error)"
proof -
  note rule1 = error_classification [where json_parse = sample_json_parse
      and stackName = sample_stackName, THEN conjunct1, rule_format, OF sample_describe(2)]
  note rule2 = error_classification [where json_parse = sample_json_parse
      and stackName = sample_stackName, THEN conjunct2, rule_format,
      OF conjI [OF load_sample sample_describe(1)]]
  have a: "fetchBackendOutput sample_json_parse
     (sample_client (Inl no_stack_error) (Inr \<lparr>Stacks = None\<rparr>)) (Inr sample_stackName) =
     Inl (BackendOutputClientError NO_STACK_FOUND
            ''Stack with id amplify-app-main-branch does not exist'')"
    using rule1 [of no_stack_error "Inr \<lparr>Stacks = None\<rparr>"] no_stack_message
    by (simp add: sample_stackName_def no_stack_error_def)
  have b: "fetchBackendOutput sample_json_parse
     (sample_client (Inl expired_token_error) (Inr \<lparr>Stacks = None\<rparr>)) (Inr sample_stackName) =
     Inl (BackendOutputClientError CREDENTIALS_ERROR
            ''The security token included in the request is expired'')"
    using rule1 [of expired_token_error "Inr \<lparr>Stacks = None\<rparr>"] other_messages(1)
    by (simp add: expired_token_error_def)
  have c: "fetchBackendOutput sample_json_parse
     (sample_client (Inl access_denied_error) (Inr \<lparr>Stacks = None\<rparr>)) (Inr sample_stackName) =
     Inl (BackendOutputClientError ACCESS_DENIED
            ''User is not authorized to perform: cloudformation:DescribeStacks'')"
    using rule1 [of access_denied_error "Inr \<lparr>Stacks = None\<rparr>"] other_messages(2)
    by (simp add: access_denied_error_def)
  have d: "fetchBackendOutput sample_json_parse
     (sample_client (Inl network_error) (Inr \<lparr>Stacks = None\<rparr>)) (Inr sample_stackName) =
     Inl (ServiceError network_error)"
    using rule1 [of network_error "Inr \<lparr>Stacks = None\<rparr>"]
    by (simp add: network_error_def)
  have e: "fetchBackendOutput sample_json_parse
     (sample_client (Inr \<lparr>Metadata = Some sample_text\<rparr>) (Inl expired_token_error))
     (Inr sample_stackName) = Inl (ServiceError expired_token_error)"
    by (rule rule2)
  show ?thesis using a b c d e by (intro conjI)
qed

subsection \<open>The pre-filter and the validation\<close>

lemma isBackendOutputEntryStackMetadata_fields:
  "isBackendOutputEntryStackMetadata entry \<longleftrightarrow>
     has_field ''version'' entry \<and> has_field ''stackOutputs'' entry"
  by (cases entry) simp_all

text \<open>
  C3 as stated fails: an entry that carries only one of the two fields does not lack
  both, and the filter removes it all the same.
\<close>

theorem one_field_entry_counterexample:
  "has_field ''version'' (JObj [(''version'', JStr ''1'')]) \<and>
   filterBackendOutputEntryStackMetadata (JObj [(''auth'', JObj [(''version'', JStr ''1'')])]) =
     Inr []"
  by (simp add: filterBackendOutputEntryStackMetadata_def from_entries_def)

text \<open>
  C3, amended. The pre-filter keeps exactly the entries that carry both a
  \<^verbatim>\<open>version\<close> and a \<^verbatim>\<open>stackOutputs\<close> field, in their order; every other entry,
  one with a single field included, is removed, and the strict validation is applied
  to the kept entries only, so that an unrelated key causes no validation error.
\<close>

theorem pre_filter_keeps_both_fields:
  assumes "js_object_wf props"
  shows "filterBackendOutputEntryStackMetadata (JObj props) =
           Inr (filter (\<lambda>(key, entry). has_field ''version'' entry \<and>
                                       has_field ''stackOutputs'' entry) props)
       \<and> (\<forall>json_parse cfnClient stackName.
            fetch_metadataObject json_parse cfnClient stackName = Inr (JObj props) \<longrightarrow>
            load_metadata json_parse cfnClient stackName =
              backendOutputStackMetadataSchema_parse
                (filter (\<lambda>(key, entry). has_field ''version'' entry \<and>
                                        has_field ''stackOutputs'' entry) props))"
proof -
  let ?kept = "filter (\<lambda>(key, entry). has_field ''version'' entry \<and>
                                      has_field ''stackOutputs'' entry) props"
  have same: "filter (\<lambda>(key, v). isBackendOutputEntryStackMetadata v) props = ?kept"
    by (simp add: isBackendOutputEntryStackMetadata_fields)
  have "js_object_wf ?kept" using assms by (rule js_object_wf_filter)
  then have "from_entries ?kept = ?kept" by (rule from_entries_wf)
  then have filtered: "filterBackendOutputEntryStackMetadata (JObj props) = Inr ?kept"
    by (simp add: filterBackendOutputEntryStackMetadata_def same)
  then show ?thesis by (simp add: load_metadata_def)
qed

lemma not_index_names:
  "\<not> is_array_index ''auth''" "\<not> is_array_index ''unrelated''"
  by (simp_all add: is_array_index_def is_digit_def)

theorem pre_filter_keeps_both_fields_witness:
  "js_object_wf
     [(''auth'', JObj [(''version'', JStr ''1'')]),
      (''api'', JObj [(''version'', JStr ''1''), (''stackOutputs'', JArr [JStr ''ApiUrl''])]),
      (''unrelated'', JObj [(''note'', JStr ''x'')])]
   \<and> filterBackendOutputEntryStackMetadata version_only_metadataObject =
       Inr [(''api'', JObj [(''version'', JStr ''1''),
                            (''stackOutputs'', JArr [JStr ''ApiUrl''])])]"
proof -
  have wf: "js_object_wf
     [(''auth'', JObj [(''version'', JStr ''1'')]),
      (''api'', JObj [(''version'', JStr ''1''), (''stackOutputs'', JArr [JStr ''ApiUrl''])]),
      (''unrelated'', JObj [(''note'', JStr ''x'')])]"
    by (simp add: js_object_wf_def not_index_names not_index_api)
  show ?thesis
    using pre_filter_keeps_both_fields [OF wf, THEN conjunct1] wf
    by (simp add: version_only_metadataObject_def)
qed

lemma parse_entries_malformed:
  "(key, entry) \<in> set obj \<Longrightarrow> parse_entry entry = None \<Longrightarrow> parse_entries obj = None"
  by (induction obj) (auto split: option.splits)

lemma parse_entry_rejects:
  "map_of props ''version'' = None \<Longrightarrow> parse_entry (JObj props) = None"
  "map_of props ''stackOutputs'' = None \<Longrightarrow> parse_entry (JObj props) = None"
  "map_of props ''stackOutputs'' = Some (JArr xs) \<Longrightarrow> strings_of xs = None \<Longrightarrow>
     parse_entry (JObj props) = None"
  "map_of props ''stackOutputs'' = Some (JArr xs) \<Longrightarrow> strings_of xs = Some [] \<Longrightarrow>
     parse_entry (JObj props) = None"
  "map_of props ''stackOutputs'' = Some (JArr xs) \<Longrightarrow> strings_of xs = Some names \<Longrightarrow>
     \<not> distinct names \<Longrightarrow> parse_entry (JObj props) = None"
  by (auto split: option.splits json.splits)

text \<open>
  C6. When an entry that the pre-filter kept fails the strict validation, the method
  rejects with the validation error, whatever the stack description would have held:
  no \<^verbatim>\<open>BackendOutput\<close> is returned.
\<close>

theorem malformed_entry_fails_validation:
  assumes "fetch_metadataObject json_parse cfnClient stackName = Inr metadataObject"
    and "filterBackendOutputEntryStackMetadata metadataObject = Inr filteredMetadataObject"
    and "(key, entry) \<in> set filteredMetadataObject"
    and "parse_entry entry = None"
  shows "fetchBackendOutput json_parse cfnClient (Inr stackName) = Inl SchemaValidationError"
proof -
  have "parse_entries filteredMetadataObject = None"
    using assms(3,4) by (rule parse_entries_malformed)
  then have "load_metadata json_parse cfnClient stackName = Inl SchemaValidationError"
    using assms(1,2) by (simp add: load_metadata_def backendOutputStackMetadataSchema_parse_def)
  then show ?thesis by (simp add: fetchBackendOutput_def)
qed

lemma fetch_sample_metadataObject:
  "sample_json_parse text = Some metadataObject \<Longrightarrow>
   fetch_metadataObject sample_json_parse (sample_client (Inr \<lparr>Metadata = Some text\<rparr>) d) n =
     Inr metadataObject"
  by (simp add: fetch_metadataObject_def try_block_def sample_describe)

lemma filter_malformed:
  "filterBackendOutputEntryStackMetadata malformed_metadataObject =
     Inr [(''api'', JObj [(''version'', JStr ''1''), (''stackOutputs'', JArr [])])]"
  "filterBackendOutputEntryStackMetadata duplicate_metadataObject =
     Inr [(''api'', JObj [(''version'', JStr ''1''),
                          (''stackOutputs'', JArr [JStr ''ApiUrl'', JStr ''ApiUrl''])])]"
  by (simp_all add: filterBackendOutputEntryStackMetadata_def malformed_metadataObject_def
      duplicate_metadataObject_def from_entries_def define_property_def not_index_api)

theorem malformed_entry_fails_validation_witness:
  "fetchBackendOutput sample_json_parse
     (sample_client (Inr \<lparr>Metadata = Some malformed_text\<rparr>)
        (Inr \<lparr>Stacks = Some [no_outputs_stack]\<rparr>))
     (Inr sample_stackName) = Inl SchemaValidationError
   \<and> fetchBackendOutput sample_json_parse
     (sample_client (Inr \<lparr>Metadata = Some duplicate_text\<rparr>)
        (Inr \<lparr>Stacks = Some [no_outputs_stack]\<rparr>))
     (Inr sample_stackName) = Inl SchemaValidationError"
proof -
  have empty_names:
    "parse_entry (JObj [(''version'', JStr ''1''), (''stackOutputs'', JArr [])]) = None"
    by simp
  have twice:
    "parse_entry (JObj [(''version'', JStr ''1''),
                        (''stackOutputs'', JArr [JStr ''ApiUrl'', JStr ''ApiUrl''])]) = None"
    by simp
  have first: "fetchBackendOutput sample_json_parse
     (sample_client (Inr \<lparr>Metadata = Some malformed_text\<rparr>)
        (Inr \<lparr>Stacks = Some [no_outputs_stack]\<rparr>))
     (Inr sample_stackName) = Inl SchemaValidationError"
    by (rule malformed_entry_fails_validation
          [OF fetch_sample_metadataObject [OF parse_malformed] filter_malformed(1) _ empty_names])
       simp
  have second: "fetchBackendOutput sample_json_parse
     (sample_client (Inr \<lparr>Metadata = Some duplicate_text\<rparr>)
        (Inr \<lparr>Stacks = Some [no_outputs_stack]\<rparr>))
     (Inr sample_stackName) = Inl SchemaValidationError"
    by (rule malformed_entry_fails_validation
          [OF fetch_sample_metadataObject [OF parse_duplicate] filter_malformed(2) _ twice])
       simp
  show ?thesis by (rule conjI [OF first second])
qed

subsection \<open>Copies of objects\<close>


lemma distinct_foldl_define_property:
  "distinct (map fst acc) \<Longrightarrow>
   distinct (map fst (foldl (\<lambda>obj (k, v). define_property obj k v) acc es))"
  by (induction es arbitrary: acc) (auto simp: distinct_define_property)

lemma map_of_foldl_define_property:
  "distinct (map fst es) \<Longrightarrow>
   map_of (foldl (\<lambda>obj (k, v). define_property obj k v) acc es) x =
     (case map_of es x of Some v \<Rightarrow> Some v | None \<Rightarrow> map_of acc x)"
proof (induction es arbitrary: acc)
  case Nil
  then show ?case by simp
next
  case (Cons e es)
  obtain k v where e: "e = (k, v)" by (cases e)
  have fresh: "map_of es k = None"
    using Cons.prems e by (simp add: map_of_eq_None_iff)
  have "map_of (foldl (\<lambda>obj (k, v). define_property obj k v) (define_property acc k v) es) x =
          (case map_of es x of Some w \<Rightarrow> Some w | None \<Rightarrow> map_of (define_property acc k v) x)"
    using Cons.IH [of "define_property acc k v"] Cons.prems by simp
  then show ?case using e fresh by (simp add: map_of_define_property split: option.splits)
qed


lemma distinct_from_entries: "distinct (map fst (from_entries es))"
  using distinct_foldl_define_property [of "[]" es] by (simp add: from_entries_def)

lemma map_of_from_entries:
  "distinct (map fst es) \<Longrightarrow> map_of (from_entries es) x = map_of es x"
  using map_of_foldl_define_property [of es "[]" x]
  by (simp add: from_entries_def split: option.splits)

subsection \<open>The record of the outputs\<close>

lemma stackOutputRecord_of_snoc:
  "stackOutputRecord_of (outputs @ [entry]) =
     (if truthy (OutputValue entry) \<and> truthy (OutputKey entry)
      then add_output (stackOutputRecord_of outputs) entry
      else stackOutputRecord_of outputs)"
  by (simp add: stackOutputRecord_of_def)

lemma distinct_add_output:
  "distinct (map fst (add_output accumulator entry))" if "distinct (map fst accumulator)"
  using that
  by (auto simp: add_output_def distinct_define_property distinct_from_entries
      split: option.splits)

lemma distinct_stackOutputRecord_of: "distinct (map fst (stackOutputRecord_of outputs))"
proof (induction outputs rule: rev_induct)
  case Nil
  then show ?case by (simp add: stackOutputRecord_of_def)
next
  case (snoc entry outputs)
  then show ?case by (simp add: stackOutputRecord_of_snoc distinct_add_output)
qed

lemma map_of_add_output:
  assumes "distinct (map fst accumulator)"
    and "OutputKey entry = Some k" and "OutputValue entry = Some v"
  shows "map_of (add_output accumulator entry) x = ((map_of accumulator)(k \<mapsto> v)) x"
  using assms by (simp add: add_output_def map_of_define_property map_of_from_entries)

lemma raw_output_value_snoc:
  "raw_output_value (outputs @ [entry]) x =
     (if OutputKey entry = Some x \<and> x \<noteq> [] \<and> truthy (OutputValue entry)
      then OutputValue entry
      else raw_output_value outputs x)"
  by (simp add: raw_output_value_def Let_def)

lemma map_of_stackOutputRecord_of:
  "map_of (stackOutputRecord_of outputs) x = raw_output_value outputs x"
proof (induction outputs rule: rev_induct)
  case Nil
  then show ?case by (simp add: stackOutputRecord_of_def raw_output_value_def)
next
  case (snoc entry outputs)
  show ?case
  proof (cases "truthy (OutputValue entry) \<and> truthy (OutputKey entry)")
    case True
    then obtain k v where kv: "OutputKey entry = Some k" "OutputValue entry = Some v"
      and nonempty: "k \<noteq> []" "v \<noteq> []"
      by (cases "OutputKey entry"; cases "OutputValue entry") auto
    have "map_of (stackOutputRecord_of (outputs @ [entry])) x =
            ((map_of (stackOutputRecord_of outputs))(k \<mapsto> v)) x"
      using True map_of_add_output [OF distinct_stackOutputRecord_of kv]
      by (simp add: stackOutputRecord_of_snoc)
    then show ?thesis using snoc kv nonempty by (auto simp: raw_output_value_snoc)
  next
    case False
    then have "\<not> (OutputKey entry = Some x \<and> x \<noteq> [] \<and> truthy (OutputValue entry))"
      by auto
    then show ?thesis using False snoc
      by (simp only: stackOutputRecord_of_snoc raw_output_value_snoc if_False)
  qed
qed


subsection \<open>The payload of a group\<close>


lemma distinct_add_name:
  "distinct (map fst accumulator) \<Longrightarrow>
   distinct (map fst (add_name stackOutputRecord accumulator outputName))"
  by (simp add: add_name_def distinct_define_property distinct_from_entries
      split: option.splits)


lemma distinct_foldl_add_name:
  "distinct (map fst accumulator) \<Longrightarrow>
   distinct (map fst (foldl (add_name stackOutputRecord) accumulator names))"
  by (induction names arbitrary: accumulator) (simp_all add: distinct_add_name)

subsection \<open>Array indices\<close>














subsection \<open>The steps of the payload\<close>
















subsection \<open>The assembled result\<close>

lemma js_object_wf_keys:
  "map fst obj = map fst obj' \<Longrightarrow> js_object_wf obj \<Longrightarrow> js_object_wf obj'"
  by (simp add: js_object_wf_def)

lemma foldl_set_property_wf:
  assumes "js_object_wf (acc @ map (\<lambda>(k, e). (k, f e)) es)"
    and "''__proto__'' \<notin> fst ` set es"
  shows "foldl (\<lambda>result (k, e). set_property result k (f e)) acc es =
           acc @ map (\<lambda>(k, e). (k, f e)) es"
  using assms
proof (induction es arbitrary: acc)
  case Nil
  then show ?case by simp
next
  case (Cons p es)
  obtain k e where p: "p = (k, e)" by (cases p)
  have wf: "js_object_wf ((acc @ [(k, f e)]) @ map (\<lambda>(k, e). (k, f e)) es)"
    using Cons.prems(1) p by simp
  then have "js_object_wf (acc @ [(k, f e)])" by (rule js_object_wf_prefix)
  then have "define_property acc k (f e) = acc @ [(k, f e)]" by (rule define_property_next)
  moreover have "k \<noteq> ''__proto__''" using Cons.prems(2) p by auto
  ultimately have "set_property acc k (f e) = acc @ [(k, f e)]"
    by (simp add: set_property_def)
  moreover have "''__proto__'' \<notin> fst ` set es" using Cons.prems(2) by auto
  ultimately show ?case using Cons.IH [OF wf] p by simp
qed

text \<open>
  Every validated entry whose key is not \<^verbatim>\<open>__proto__\<close> yields its group, in the order
  of the metadata, with the version of the entry.
\<close>

lemma build_result_groups:
  assumes "js_object_wf backendOutputMetadata"
    and "''__proto__'' \<notin> fst ` set backendOutputMetadata"
  shows "build_result stackOutputRecord backendOutputMetadata =
           map (\<lambda>(outputKeyName, entry).
                  (outputKeyName, resolve_entry stackOutputRecord entry)) backendOutputMetadata"
proof -
  have "map fst backendOutputMetadata =
        map fst (map (\<lambda>(k, e). (k, resolve_entry stackOutputRecord e)) backendOutputMetadata)"
    by (induction backendOutputMetadata) auto
  then have "js_object_wf
      ([] @ map (\<lambda>(k, e). (k, resolve_entry stackOutputRecord e)) backendOutputMetadata)"
    using assms(1) js_object_wf_keys by fastforce
  from foldl_set_property_wf [OF this assms(2)] show ?thesis
    by (simp add: build_result_def)
qed

text \<open>
  A group none of whose names has a raw output value, or is defined by
  \<^verbatim>\<open>Object.prototype\<close>, has the empty payload.
\<close>

lemma unresolved_names_empty_payload:
  assumes "set (stackOutputs entry) \<inter> set object_prototype_members = {}"
    and "\<forall>outputName \<in> set (stackOutputs entry). raw_output_value outputs outputName = None"
  shows "payload (resolve_entry (stackOutputRecord_of outputs) entry) = []"
proof -
  have "foldl (add_name (stackOutputRecord_of outputs)) acc names = acc"
    if "set names \<inter> set object_prototype_members = {}"
      and "\<forall>n \<in> set names. raw_output_value outputs n = None" for names acc
    using that
    by (induction names arbitrary: acc)
       (auto simp: add_name_def get_property_def map_of_stackOutputRecord_of)
  then show ?thesis using assms by (simp add: resolve_entry_def outputData_def)
qed

lemma no_outputs_no_raw_value: "raw_output_value [] outputName = None"
  by (simp add: raw_output_value_def)

lemma filter_constructor:
  "filterBackendOutputEntryStackMetadata constructor_metadataObject =
     Inr [(''api'', JObj [(''version'', JStr ''1''),
                          (''stackOutputs'', JArr [JStr ''constructor''])])]"
  by (simp add: filterBackendOutputEntryStackMetadata_def constructor_metadataObject_def
      from_entries_def define_property_def not_index_api)

lemma load_constructor:
  "load_metadata sample_json_parse
     (sample_client (Inr \<lparr>Metadata = Some constructor_text\<rparr>) d) n =
     Inr [(''api'', \<lparr>version = ''1'', stackOutputs = [''constructor'']\<rparr>)]"
  by (simp add: load_metadata_def fetch_sample_metadataObject [OF parse_constructor]
      filter_constructor backendOutputStackMetadataSchema_parse_def from_entries_def
      define_property_def not_index_api)

lemma constructor_member: "''constructor'' \<in> set object_prototype_members"
  by (simp add: object_prototype_members_def)

lemma not_index_constructor: "\<not> is_array_index ''constructor''"
  by (simp add: is_array_index_def is_digit_def)

lemma constructor_payload:
  "map_of stackOutputRecord ''constructor'' = None \<Longrightarrow>
   outputData stackOutputRecord [''constructor''] =
     [(''constructor'', ObjectPrototypeMember ''constructor'')]"
  by (simp add: outputData_def add_name_def get_property_def constructor_member
      from_entries_def define_property_def not_index_constructor)

lemma complete_stack_outputs:
  "checked_outputs \<lparr>Stacks = Some [complete_stack outputs]\<rparr> = Inr outputs"
  by (simp add: checked_outputs_def status_in_progress_def first_stack_outputs_def
      complete_stack_def complete_status)

lemma not_proto_api: "''api'' \<noteq> ''__proto__''"
  by simp

text \<open>
  C8. The code departs from the claim where a declared name is a name that
  \<^verbatim>\<open>Object.prototype\<close> defines: no output is called \<^verbatim>\<open>constructor\<close>, and the
  group's payload is not empty, it holds the inherited member under that name.
\<close>

theorem unresolved_name_payload_not_empty:
  "raw_output_value sample_outputs ''constructor'' = None \<and>
   fetchBackendOutput sample_json_parse
     (sample_client (Inr \<lparr>Metadata = Some constructor_text\<rparr>)
        (Inr \<lparr>Stacks = Some [complete_stack sample_outputs]\<rparr>))
     (Inr sample_stackName) =
   Inr [(''api'', \<lparr>group_version = ''1'',
                   payload = [(''constructor'', ObjectPrototypeMember ''constructor'')]\<rparr>)]"
proof -
  have absent: "raw_output_value sample_outputs ''constructor'' = None"
    by (simp add: raw_output_value_def sample_outputs_def)
  then have "map_of (stackOutputRecord_of sample_outputs) ''constructor'' = None"
    by (simp add: map_of_stackOutputRecord_of)
  then have "outputData (stackOutputRecord_of sample_outputs) [''constructor''] =
      [(''constructor'', ObjectPrototypeMember ''constructor'')]"
    by (rule constructor_payload)
  then show ?thesis using absent
    by (simp add: fetchBackendOutput_def load_constructor sample_describe
        complete_stack_outputs build_result_def set_property_def define_property_def
        not_index_api resolve_entry_def)
qed

text \<open>
  C9. With a defined, empty list of outputs the method does not reject, but the same
  departure shows: the declared name \<^verbatim>\<open>constructor\<close> is read from
  \<^verbatim>\<open>Object.prototype\<close>, and the payload of the group is not empty.
\<close>

theorem empty_outputs_payload_not_empty:
  "fetchBackendOutput sample_json_parse
     (sample_client (Inr \<lparr>Metadata = Some constructor_text\<rparr>)
        (Inr \<lparr>Stacks = Some [complete_stack []]\<rparr>))
     (Inr sample_stackName) =
   Inr [(''api'', \<lparr>group_version = ''1'',
                   payload = [(''constructor'', ObjectPrototypeMember ''constructor'')]\<rparr>)]"
proof -
  have "stackOutputRecord_of [] = []" by (simp add: stackOutputRecord_of_def)
  moreover have "outputData [] [''constructor''] =
      [(''constructor'', ObjectPrototypeMember ''constructor'')]"
    by (rule constructor_payload) simp
  ultimately show ?thesis
    by (simp add: fetchBackendOutput_def load_constructor sample_describe
        complete_stack_outputs build_result_def set_property_def define_property_def
        not_index_api resolve_entry_def)
qed

text \<open>
  What holds of the result when the method gets past both checks: the groups of the
  validated metadata in their order.
\<close>

lemma fetchBackendOutput_groups:
  assumes "load_metadata json_parse cfnClient stackName = Inr backendOutputMetadata"
    and "DescribeStacksCommand cfnClient stackName = Inr stackDescription"
    and "checked_outputs stackDescription = Inr outputs"
    and "js_object_wf backendOutputMetadata"
    and "''__proto__'' \<notin> fst ` set backendOutputMetadata"
  shows "fetchBackendOutput json_parse cfnClient (Inr stackName) =
           Inr (map (\<lambda>(outputKeyName, entry).
                       (outputKeyName, resolve_entry (stackOutputRecord_of outputs) entry))
                  backendOutputMetadata)"
  using fetch_after_metadata [OF assms(1,2)] assms(3) build_result_groups [OF assms(4,5)]
  by simp

end
